theory Spec2Isabelle
  imports Complex_Main
begin

section \<open>JavaScript values\<close>

text \<open>
  A JavaScript number is a double. Comparison is exact on doubles and so is the remainder
  operator, whose result is always representable, so a finite number is kept as the
  rational it denotes; the two zeros are one value, which no operation used here tells
  apart. The three special values are constructors of their own.
\<close>

datatype jsnum = NaN | PosInf | NegInf | Finite rat

text \<open>The relational operators: every comparison with \<open>NaN\<close> is false.\<close>

fun js_lt :: "jsnum \<Rightarrow> jsnum \<Rightarrow> bool" where
  "js_lt NaN _ = False"
| "js_lt _ NaN = False"
| "js_lt (Finite a) (Finite b) = (a < b)"
| "js_lt _ NegInf = False"
| "js_lt NegInf _ = True"
| "js_lt PosInf _ = False"
| "js_lt _ PosInf = True"

fun js_le :: "jsnum \<Rightarrow> jsnum \<Rightarrow> bool" where
  "js_le NaN _ = False"
| "js_le _ NaN = False"
| "js_le a b = (a = b \<or> js_lt a b)"

definition js_gt :: "jsnum \<Rightarrow> jsnum \<Rightarrow> bool" where
  "js_gt a b = js_lt b a"

definition js_ge :: "jsnum \<Rightarrow> jsnum \<Rightarrow> bool" where
  "js_ge a b = js_le b a"

text \<open>
  The remainder operator \<open>%\<close>: the result has the sign of the dividend, the quotient is
  truncated towards zero; a zero divisor, an infinite dividend and \<open>NaN\<close> give \<open>NaN\<close>,
  an infinite divisor gives the dividend back.
\<close>

definition trunc_to_zero :: "rat \<Rightarrow> int" where
  "trunc_to_zero q = (if q < 0 then \<lceil>q\<rceil> else \<lfloor>q\<rfloor>)"

fun js_rem :: "jsnum \<Rightarrow> jsnum \<Rightarrow> jsnum" where
  "js_rem NaN _ = NaN"
| "js_rem _ NaN = NaN"
| "js_rem PosInf _ = NaN"
| "js_rem NegInf _ = NaN"
| "js_rem (Finite a) (Finite b) =
     (if b = 0 then NaN else Finite (a - b * of_int (trunc_to_zero (a / b))))"
| "js_rem (Finite a) _ = Finite a"

text \<open>
  The values handed to \<open>validate\<close>: plain data. A string is the list of its code
  units, so that its \<open>length\<close> is the length of the list. An object is the list of its
  own enumerable string-keyed properties in the order \<open>Object.keys\<close> enumerates them.
\<close>

datatype jsval =
    JUndefined
  | JNull
  | JBool bool
  | JNum jsnum
  | JStr string
  | JBigInt int
  | JFunction
  | JArr "jsval list"
  | JObj "(string \<times> jsval) list"

fun typeof :: "jsval \<Rightarrow> string" where
  "typeof JUndefined = ''undefined''"
| "typeof JNull = ''object''"
| "typeof (JBool _) = ''boolean''"
| "typeof (JNum _) = ''number''"
| "typeof (JStr _) = ''string''"
| "typeof (JBigInt _) = ''bigint''"
| "typeof JFunction = ''function''"
| "typeof (JArr _) = ''object''"
| "typeof (JObj _) = ''object''"

fun isArray :: "jsval \<Rightarrow> bool" where
  "isArray (JArr _) = True"
| "isArray _ = False"

text \<open>\<open>keysOf\<close> is \<open>Object.keys\<close> on the property list of an object.\<close>

definition keysOf :: "(string \<times> 'a) list \<Rightarrow> string list" where
  "keysOf value = map fst value"

text \<open>The property list of a value that has passed the object-ness check.\<close>

fun entries :: "jsval \<Rightarrow> (string \<times> jsval) list" where
  "entries (JObj kvs) = kvs"
| "entries _ = []"

text \<open>Reading a property: \<open>undefined\<close> when the object has no such key.\<close>

definition get :: "(string \<times> jsval) list \<Rightarrow> string \<Rightarrow> jsval" where
  "get kvs key = (case map_of kvs key of Some v \<Rightarrow> v | None \<Rightarrow> JUndefined)"

text \<open>
  \<open>new Set(xs)\<close>, as the list of its elements in iteration order: insertion order, each
  element at its first occurrence.
\<close>

fun Set_of :: "'a list \<Rightarrow> 'a list" where
  "Set_of [] = []"
| "Set_of (x # xs) = x # filter (\<lambda>y. y \<noteq> x) (Set_of xs)"

text \<open>\<open>Array.prototype.join\<close> on strings.\<close>

fun join :: "string \<Rightarrow> string list \<Rightarrow> string" where
  "join sep [] = []"
| "join sep [x] = x"
| "join sep (x # y # ys) = x @ sep @ join sep (y # ys)"

text \<open>The decimal numeral of an array index or a length, as a template literal prints it.\<close>

fun decimal :: "nat \<Rightarrow> string" where
  "decimal n =
     (if n < 10 then [char_of (48 + n)]
      else decimal (n div 10) @ [char_of (48 + n mod 10)])"

declare decimal.simps [simp del]

section \<open>Schema model\<close>

text \<open>
  \<open>items\<close> of an \<open>array\<close>-tagged schema is one child schema (\<open>ArrayType\<close>) or an array of
  them (\<open>TupleType\<close>).
\<close>

datatype 'a one_or_many = One 'a | Many "'a list"

fun isArray_items :: "'a one_or_many option \<Rightarrow> bool" where
  "isArray_items (Some (Many _)) = True"
| "isArray_items _ = False"

text \<open>
  A schema is an object. The model has one field for every property the interfaces
  \<open>NumberType\<close>, \<open>StringType\<close>, \<open>ArrayType\<close>, \<open>TupleType\<close>, \<open>RecordType\<close> and
  \<open>ObjectType\<close> declare, each of its declared type and each optional: \<open>None\<close> is a
  property that is not there and reads as \<open>undefined\<close>. The tag \<open>type\<close> is any
  JavaScript value, since \<open>isSchemaType\<close> inspects it. The two flags say whether the
  object has the non-enumerable symbol-keyed property \<open>OPTIONAL\<close>, \<open>READONLY\<close>, with
  the value \<open>true\<close>.
\<close>

datatype schema = Schema
  (type: "jsval option")
  (multipleOf: "jsnum option")
  (maximum: "jsnum option")
  (exclusiveMaximum: "jsnum option")
  (minimum: "jsnum option")
  (exclusiveMinimum: "jsnum option")
  (maxLength: "jsnum option")
  (minLength: "jsnum option")
  (pattern: "string option")
  (items: "schema one_or_many option")
  (additionalProperties: "schema option")
  (properties: "(string \<times> schema) list option")
  (required: "string list option")
  (OPTIONAL: bool)
  (READONLY: bool)

record NumberOptions =
  opt_multipleOf :: "jsnum option"
  opt_maximum :: "jsnum option"
  opt_exclusiveMaximum :: "jsnum option"
  opt_minimum :: "jsnum option"
  opt_exclusiveMinimum :: "jsnum option"

record StringOptions =
  opt_maxLength :: "jsnum option"
  opt_minLength :: "jsnum option"
  opt_pattern :: "string option"

subsection \<open>Schema builders\<close>

definition T_any :: schema where
  "T_any = Schema None None None None None None None None None None None None None False False"

definition T_boolean :: schema where
  "T_boolean = Schema (Some (JStr ''boolean'')) None None None None None None None None None
     None None None False False"

definition T_null :: schema where
  "T_null = Schema (Some (JStr ''null'')) None None None None None None None None None
     None None None False False"

definition T_number :: "NumberOptions \<Rightarrow> schema" where
  "T_number options = Schema (Some (JStr ''number'')) (opt_multipleOf options)
     (opt_maximum options) (opt_exclusiveMaximum options) (opt_minimum options)
     (opt_exclusiveMinimum options) None None None None None None None False False"

definition T_string :: "StringOptions \<Rightarrow> schema" where
  "T_string options = Schema (Some (JStr ''string'')) None None None None None
     (opt_maxLength options) (opt_minLength options) (opt_pattern options) None None None None
     False False"

definition T_undefined :: schema where
  "T_undefined = Schema (Some (JStr ''undefined'')) None None None None None None None
     None None None None None False False"

definition T_array :: "schema \<Rightarrow> schema" where
  "T_array item = Schema (Some (JStr ''array'')) None None None None None None None None
     (Some (One item)) None None None False False"

definition T_record :: "schema \<Rightarrow> schema" where
  "T_record item = Schema (Some (JStr ''object'')) None None None None None None None
     None None (Some item) None None False False"

text \<open>
  \<open>object\<close> keeps the keys whose property does not carry the \<open>OPTIONAL\<close> marker and
  leaves \<open>required\<close> out when none is left. \<open>properties[key]\<close> is read for keys of
  \<open>properties\<close> only, so the lookup finds a schema.
\<close>

definition required_of :: "(string \<times> schema) list \<Rightarrow> string list" where
  "required_of props =
     filter (\<lambda>key. case map_of props key of Some prop \<Rightarrow> \<not> OPTIONAL prop | None \<Rightarrow> False)
       (keysOf props)"

definition T_object :: "(string \<times> schema) list \<Rightarrow> schema" where
  "T_object props =
     (let required = required_of props
      in Schema (Some (JStr ''object'')) None None None None None None None None None None
           (Some props) (if length required > 0 then Some required else None)
           False False)"

definition T_tuple :: "schema list \<Rightarrow> schema" where
  "T_tuple item_list = Schema (Some (JStr ''array'')) None None None None None None None None
     (Some (Many item_list)) None None None False False"

subsection \<open>Modifiers\<close>

text \<open>
  The spread \<open>{...item}\<close> copies the own enumerable properties of \<open>item\<close>. Both markers
  are defined with \<open>enumerable: false\<close>, so the copy carries neither; \<open>defineProperty\<close>
  then sets the one marker.
\<close>

fun spread :: "schema \<Rightarrow> schema" where
  "spread (Schema t mo ma ema mi emi mxl mnl pat it ap props req opt ro) =
     Schema t mo ma ema mi emi mxl mnl pat it ap props req False False"

fun define_OPTIONAL :: "schema \<Rightarrow> schema" where
  "define_OPTIONAL (Schema t mo ma ema mi emi mxl mnl pat it ap props req opt ro) =
     Schema t mo ma ema mi emi mxl mnl pat it ap props req True ro"

fun define_READONLY :: "schema \<Rightarrow> schema" where
  "define_READONLY (Schema t mo ma ema mi emi mxl mnl pat it ap props req opt ro) =
     Schema t mo ma ema mi emi mxl mnl pat it ap props req opt True"

definition T_optional :: "schema \<Rightarrow> schema" where
  "T_optional item = define_OPTIONAL (spread item)"

definition T_readonly :: "schema \<Rightarrow> schema" where
  "T_readonly item = define_READONLY (spread item)"

subsection \<open>Introspection predicates\<close>

text \<open>
  \<open>isSchemaType\<close> on an object: the tag must be there and be a string. (Its first test,
  that the value is a non-null object, holds of every \<open>schema\<close>.)
\<close>

definition isSchemaType :: "schema \<Rightarrow> bool" where
  "isSchemaType value =
     (case type value of None \<Rightarrow> False | Some t \<Rightarrow> typeof t = ''string'')"

definition isBooleanType :: "schema \<Rightarrow> bool" where
  "isBooleanType value = (type value = Some (JStr ''boolean''))"

definition isNullType :: "schema \<Rightarrow> bool" where
  "isNullType value = (type value = Some (JStr ''null''))"

definition isNumberType :: "schema \<Rightarrow> bool" where
  "isNumberType value = (type value = Some (JStr ''number''))"

definition isStringType :: "schema \<Rightarrow> bool" where
  "isStringType value = (type value = Some (JStr ''string''))"

definition isUndefinedType :: "schema \<Rightarrow> bool" where
  "isUndefinedType value = (type value = Some (JStr ''undefined''))"

definition isArrayType :: "schema \<Rightarrow> bool" where
  "isArrayType value =
     (type value = Some (JStr ''array'') \<and> \<not> isArray_items (items value))"

definition isRecordType :: "schema \<Rightarrow> bool" where
  "isRecordType value =
     (type value = Some (JStr ''object'') \<and> additionalProperties value \<noteq> None)"

definition isObjectType :: "schema \<Rightarrow> bool" where
  "isObjectType value = (type value = Some (JStr ''object''))"

definition isTupleType :: "schema \<Rightarrow> bool" where
  "isTupleType value =
     (type value = Some (JStr ''array'') \<and> isArray_items (items value))"

definition isOptional :: "schema \<Rightarrow> bool" where
  "isOptional value = (OPTIONAL value = True)"

definition isReadonly :: "schema \<Rightarrow> bool" where
  "isReadonly value = (READONLY value = True)"

section \<open>Validation\<close>

datatype issue_kind = INVALID_SCHEMA | INVALID_TYPE | INVALID_VALUE

text \<open>
  A message is a template literal, kept as its parts: the text, with the strings and the
  decimal indices and lengths already spliced in, and the interpolated values whose text
  is the host's to produce, a number (\<open>Number.prototype.toString\<close>) or an inspected
  value (\<open>util.inspect\<close>).
\<close>

datatype part = Lit string | Num jsnum | Inspect jsval

record ValidationIssue =
  issue_type :: issue_kind
  message :: "part list"
  issue_path :: string

datatype error = TypeError | SyntaxError

type_synonym result = "error + ValidationIssue list"

text \<open>
  The host's regular expressions: \<open>new RegExp(source)\<close> throws a \<open>SyntaxError\<close>
  (\<open>None\<close>) or gives an expression with its \<open>test\<close>.
\<close>

type_synonym regexp = "string \<Rightarrow> (string \<Rightarrow> bool) option"

definition invalidTypeIssue :: "string \<Rightarrow> jsval \<Rightarrow> string \<Rightarrow> ValidationIssue" where
  "invalidTypeIssue expected value path =
     \<lparr>issue_type = INVALID_TYPE,
      message = [Lit (''Invalid type, expected '' @ expected @ '', got ''), Inspect value],
      issue_path = path\<rparr>"

text \<open>
  What \<open>validateWithPath\<close> returns when its schema argument is \<open>undefined\<close>, a property
  read that found nothing: \<open>isSchemaType\<close> is false of it.
\<close>

definition invalidSchema :: "string \<Rightarrow> ValidationIssue list" where
  "invalidSchema path =
     [\<lparr>issue_type = INVALID_SCHEMA, message = [Lit ''Invalid schema''], issue_path = path\<rparr>]"

text \<open>
  \<open>flatMap\<close> with a callback that may throw: the first exception, in iteration order,
  leaves the loop.
\<close>

fun flatMap :: "('a \<Rightarrow> error + 'b list) \<Rightarrow> 'a list \<Rightarrow> error + 'b list" where
  "flatMap f [] = Inr []"
| "flatMap f (x # xs) =
     (case f x of
        Inl e \<Rightarrow> Inl e
      | Inr ys \<Rightarrow> (case flatMap f xs of Inl e \<Rightarrow> Inl e | Inr zs \<Rightarrow> Inr (ys @ zs)))"

lemma flatMap_cong [fundef_cong]:
  "xs = ys \<Longrightarrow> (\<And>x. x \<in> set ys \<Longrightarrow> f x = g x) \<Longrightarrow> flatMap f xs = flatMap g ys"
  by (induction ys arbitrary: xs) (auto split: sum.splits)

text \<open>The elements of an array with their indices.\<close>

definition indexed :: "'a list \<Rightarrow> (nat \<times> 'a) list" where
  "indexed xs = zip [0..<length xs] xs"

definition tuple_items :: "schema \<Rightarrow> schema list" where
  "tuple_items schema = (case items schema of Some (Many cs) \<Rightarrow> cs | _ \<Rightarrow> [])"

definition number_issues :: "schema \<Rightarrow> jsnum \<Rightarrow> string \<Rightarrow> ValidationIssue list" where
  "number_issues schema value path =
     (case multipleOf schema of
        Some m \<Rightarrow>
          if js_rem value m \<noteq> Finite 0
          then [\<lparr>issue_type = INVALID_VALUE,
                 message = [Lit ''Value must be a multiple of '', Num m], issue_path = path\<rparr>]
          else []
      | None \<Rightarrow> []) @
     (case maximum schema of
        Some m \<Rightarrow>
          if js_gt value m
          then [\<lparr>issue_type = INVALID_VALUE,
                 message = [Lit ''Value must be less than or equal to '', Num m,
                            Lit '', instead was '', Num value], issue_path = path\<rparr>]
          else []
      | None \<Rightarrow> []) @
     (case exclusiveMaximum schema of
        Some m \<Rightarrow>
          if js_ge value m
          then [\<lparr>issue_type = INVALID_VALUE,
                 message = [Lit ''Value must be strictly less than '', Num m,
                            Lit '', instead was '', Num value], issue_path = path\<rparr>]
          else []
      | None \<Rightarrow> []) @
     (case minimum schema of
        Some m \<Rightarrow>
          if js_lt value m
          then [\<lparr>issue_type = INVALID_VALUE,
                 message = [Lit ''Value must be greater than or equal to '', Num m,
                            Lit '', instead was '', Num value], issue_path = path\<rparr>]
          else []
      | None \<Rightarrow> []) @
     (case exclusiveMinimum schema of
        Some m \<Rightarrow>
          if js_le value m
          then [\<lparr>issue_type = INVALID_VALUE,
                 message = [Lit ''Value must be strictly greater than '', Num m,
                            Lit '', instead was '', Num value], issue_path = path\<rparr>]
          else []
      | None \<Rightarrow> [])"

definition string_issues :: "regexp \<Rightarrow> schema \<Rightarrow> string \<Rightarrow> string \<Rightarrow> result" where
  "string_issues RegExp schema value path =
     (let len = length value;
          issues =
            (case maxLength schema of
               Some m \<Rightarrow>
                 if js_gt (Finite (of_nat len)) m
                 then [\<lparr>issue_type = INVALID_VALUE,
                        message = [Lit ''String value must have a length no greater than '',
                                   Num m, Lit ('', instead was '' @ decimal len)],
                        issue_path = path\<rparr>]
                 else []
             | None \<Rightarrow> []) @
            (case minLength schema of
               Some m \<Rightarrow>
                 if js_lt (Finite (of_nat len)) m
                 then [\<lparr>issue_type = INVALID_VALUE,
                        message = [Lit ''String value must have a length no less than '',
                                   Num m, Lit ('', instead was '' @ decimal len)],
                        issue_path = path\<rparr>]
                 else []
             | None \<Rightarrow> [])
      in case pattern schema of
           None \<Rightarrow> Inr issues
         | Some p \<Rightarrow>
             (case RegExp p of
                None \<Rightarrow> Inl SyntaxError
              | Some test \<Rightarrow>
                  if \<not> test value
                  then Inr (issues @
                    [\<lparr>issue_type = INVALID_VALUE,
                      message = [Lit (''String value must match pattern: '' @ p)],
                      issue_path = path\<rparr>])
                  else Inr issues))"

definition key_issues :: "string list \<Rightarrow> string list \<Rightarrow> string list \<Rightarrow> string
    \<Rightarrow> ValidationIssue list" where
  "key_issues valueKeys expectedKeys requiredKeys path =
     (let extraKeys = Set_of (filter (\<lambda>key. key \<notin> set expectedKeys) valueKeys);
          missingRequiredKeys = Set_of (filter (\<lambda>key. key \<notin> set valueKeys) requiredKeys)
      in (if length extraKeys > 0
          then [\<lparr>issue_type = INVALID_TYPE,
                 message = [Lit (''Unexpected keys: '' @ join '', '' extraKeys)],
                 issue_path = path\<rparr>]
          else []) @
         (if length missingRequiredKeys > 0
          then [\<lparr>issue_type = INVALID_TYPE,
                 message = [Lit (''Missing required keys: '' @ join '', '' missingRequiredKeys)],
                 issue_path = path\<rparr>]
          else []))"

lemma size_items_One: "items s = Some (One c) \<Longrightarrow> size c < size s"
  by (cases s) simp

lemma size_tuple_items:
  assumes "c \<in> set (tuple_items s)"
  shows "size c < size s"
proof (cases s)
  case (Schema t mo ma ema mi emi mxl mnl pat it ap props req opt ro)
  with assms obtain cs where it: "it = Some (Many cs)" and mem: "c \<in> set cs"
    by (auto simp: tuple_items_def split: option.splits one_or_many.splits)
  have "size c \<le> size_list size cs"
    by (rule size_list_estimation' [OF mem]) simp
  with Schema it show ?thesis by simp
qed

lemma size_properties:
  assumes "properties s = Some P" and "map_of P key = Some c"
  shows "size c < size s"
proof (cases s)
  case (Schema t mo ma ema mi emi mxl mnl pat it ap props req opt ro)
  from assms(2) have mem: "(key, c) \<in> set P"
    by (rule map_of_SomeD)
  have "size c \<le> size_list (size_prod (\<lambda>x. 0) size) P"
    by (rule size_list_estimation' [OF mem]) simp
  with Schema assms(1) show ?thesis by simp
qed

function validateWithPath :: "regexp \<Rightarrow> string \<Rightarrow> schema \<Rightarrow> jsval \<Rightarrow> result" where
  "validateWithPath RegExp path schema value =
    (if \<not> isSchemaType schema then Inr (invalidSchema path)
     else if isBooleanType schema then
       (if typeof value = ''boolean'' then Inr []
        else Inr [invalidTypeIssue ''boolean'' value path])
     else if isNullType schema then
       (if typeof value = ''object'' \<and> value = JNull then Inr []
        else Inr [invalidTypeIssue ''null'' value path])
     else if isNumberType schema then
       (case value of
          JNum n \<Rightarrow> Inr (number_issues schema n path)
        | _ \<Rightarrow> Inr [invalidTypeIssue ''number'' value path])
     else if isStringType schema then
       (case value of
          JStr s \<Rightarrow> string_issues RegExp schema s path
        | _ \<Rightarrow> Inr [invalidTypeIssue ''string'' value path])
     else if isUndefinedType schema then
       (if typeof value = ''undefined'' then Inr []
        else Inr [invalidTypeIssue ''undefined'' value path])
     else if isArrayType schema then
       (case value of
          JArr xs \<Rightarrow>
            flatMap (\<lambda>(idx, item).
                case items schema of
                  Some (One c) \<Rightarrow> validateWithPath RegExp (path @ ''/'' @ decimal idx) c item
                | _ \<Rightarrow> Inr (invalidSchema (path @ ''/'' @ decimal idx)))
              (indexed xs)
        | _ \<Rightarrow> Inr [invalidTypeIssue ''array'' value path])
     else if isTupleType schema then
       (case value of
          JArr xs \<Rightarrow>
            (let items = tuple_items schema
             in if length xs \<noteq> length items
                then Inr [\<lparr>issue_type = INVALID_TYPE,
                           message = [Lit (''Expected '' @ decimal (length items) @
                             '' elements, got '' @ decimal (length xs) @
                             '' elements instead'')],
                           issue_path = path\<rparr>]
                else flatMap (\<lambda>(idx, item).
                         if idx < length items
                         then validateWithPath RegExp (path @ ''/'' @ decimal idx)
                                (items ! idx) item
                         else Inr (invalidSchema (path @ ''/'' @ decimal idx)))
                       (indexed xs))
        | _ \<Rightarrow> Inr [invalidTypeIssue ''tuple'' value path])
     else if isObjectType schema then
       (if typeof value \<noteq> ''object'' \<or> isArray value \<or> value = JNull
        then Inr [invalidTypeIssue ''object'' value path]
        else
          (case properties schema of
             None \<Rightarrow> Inl TypeError
           | Some props \<Rightarrow>
               (let valueKeys = Set_of (keysOf (entries value));
                    expectedKeys = Set_of (keysOf props);
                    requiredKeys = Set_of (case required schema of None \<Rightarrow> [] | Some r \<Rightarrow> r)
                in case flatMap (\<lambda>key.
                          if key \<in> set expectedKeys
                          then (case map_of props key of
                                  Some c \<Rightarrow> validateWithPath RegExp (path @ ''/'' @ key) c
                                              (get (entries value) key)
                                | None \<Rightarrow> Inr (invalidSchema (path @ ''/'' @ key)))
                          else Inr [])
                        valueKeys of
                     Inl e \<Rightarrow> Inl e
                   | Inr children \<Rightarrow>
                       Inr (key_issues valueKeys expectedKeys requiredKeys path @ children))))
     else Inr [\<lparr>issue_type = INVALID_SCHEMA, message = [Lit ''Unable to validate type''],
                issue_path = path\<rparr>])"
  by pat_completeness auto
termination
  by (relation "measure (\<lambda>(RegExp, path, schema, value). size schema)")
     (auto intro: size_items_One size_tuple_items size_properties)

declare validateWithPath.simps [simp del]

definition validate :: "regexp \<Rightarrow> schema \<Rightarrow> jsval \<Rightarrow> result" where
  "validate RegExp schema value = validateWithPath RegExp [] schema value"

subsection \<open>A host for concrete runs\<close>

text \<open>
  A host restricted to literal regular expressions: a source made of letters and digits
  compiles to the test "the string contains the source", as it does in JavaScript; any
  other source is rejected. The source \<open>[\<close>, an unterminated character class, is
  rejected by every JavaScript host with a \<open>SyntaxError\<close>.
\<close>

definition is_alnum :: "char \<Rightarrow> bool" where
  "is_alnum c =
     (let n = (of_char c :: nat)
      in (48 \<le> n \<and> n \<le> 57) \<or> (65 \<le> n \<and> n \<le> 90) \<or> (97 \<le> n \<and> n \<le> 122))"

fun starts_with :: "string \<Rightarrow> string \<Rightarrow> bool" where
  "starts_with _ [] = True"
| "starts_with [] (c # p) = False"
| "starts_with (x # xs) (c # p) = (x = c \<and> starts_with xs p)"

fun contains :: "string \<Rightarrow> string \<Rightarrow> bool" where
  "contains [] p = (p = [])"
| "contains (x # xs) p = (starts_with (x # xs) p \<or> contains xs p)"

definition literal_RegExp :: regexp where
  "literal_RegExp source =
     (if list_all is_alnum source then Some (\<lambda>s. contains s source) else None)"

section \<open>Notions of the specification\<close>

text \<open>The tags of the \<open>SchemaType\<close> union.\<close>

definition variant_names :: "string list" where
  "variant_names =
     [''boolean'', ''null'', ''number'', ''string'', ''undefined'', ''array'', ''object'']"

text \<open>The nine variant predicates, and how many of them hold of a schema.\<close>

definition variant_predicates :: "(schema \<Rightarrow> bool) list" where
  "variant_predicates =
     [isBooleanType, isNullType, isNumberType, isStringType, isUndefinedType, isArrayType,
      isTupleType, isRecordType, isObjectType]"

definition holding :: "schema \<Rightarrow> nat" where
  "holding value = length (filter (\<lambda>p. p value) variant_predicates)"

text \<open>A property that may be absent, as the list of what is there.\<close>

definition present :: "'a option \<Rightarrow> 'a list" where
  "present x = (case x of None \<Rightarrow> [] | Some y \<Rightarrow> [y])"

text \<open>The issue of a violated constraint.\<close>

definition violation :: "part list \<Rightarrow> string \<Rightarrow> ValidationIssue" where
  "violation msg path = \<lparr>issue_type = INVALID_VALUE, message = msg, issue_path = path\<rparr>"

lemma size_properties_entry:
  assumes "properties s = Some P" and "(key, c) \<in> set P"
  shows "size c < size s"
proof (cases s)
  case (Schema t mo ma ema mi emi mxl mnl pat it ap props req opt ro)
  have "size c \<le> size_list (size_prod (\<lambda>x. 0) size) P"
    by (rule size_list_estimation' [OF assms(2)]) simp
  with Schema assms(1) show ?thesis by simp
qed

text \<open>
  The schemas on which no call of \<open>validateWithPath\<close> can throw, whatever the value:
  along the dispatch, every pattern of a \<open>string\<close> schema compiles and every
  \<open>object\<close>-tagged schema has its \<open>properties\<close>.
\<close>

function throw_free :: "regexp \<Rightarrow> schema \<Rightarrow> bool" where
  "throw_free RegExp schema =
    (if \<not> isSchemaType schema then True
     else if isBooleanType schema then True
     else if isNullType schema then True
     else if isNumberType schema then True
     else if isStringType schema then
       (case pattern schema of None \<Rightarrow> True | Some p \<Rightarrow> RegExp p \<noteq> None)
     else if isUndefinedType schema then True
     else if isArrayType schema then
       (case items schema of Some (One c) \<Rightarrow> throw_free RegExp c | _ \<Rightarrow> True)
     else if isTupleType schema then list_all (throw_free RegExp) (tuple_items schema)
     else if isObjectType schema then
       (case properties schema of
          None \<Rightarrow> False
        | Some props \<Rightarrow> list_all (\<lambda>(key, c). throw_free RegExp c) props)
     else True)"
  by pat_completeness auto
termination
  by (relation "measure (\<lambda>(RegExp, schema). size schema)")
     (auto intro: size_items_One size_tuple_items size_properties_entry)

declare throw_free.simps [simp del]

text \<open>
  The key lists of the object branch, of a properties map, the stored \<open>required\<close> and the
  property list of a value: the value keys that are not declared; the required keys that
  are not keys of the value; the value keys that are declared, each with its property
  schema. All three are in iteration order.
\<close>

definition extra_keys :: "(string \<times> schema) list \<Rightarrow> (string \<times> jsval) list \<Rightarrow> string list" where
  "extra_keys props kvs = filter (\<lambda>k. k \<notin> set (keysOf props)) (Set_of (keysOf kvs))"

definition missing_keys :: "string list option \<Rightarrow> (string \<times> jsval) list \<Rightarrow> string list" where
  "missing_keys req kvs =
     filter (\<lambda>k. k \<notin> set (keysOf kvs)) (Set_of (case req of None \<Rightarrow> [] | Some r \<Rightarrow> r))"

definition declared_keys ::
    "(string \<times> schema) list \<Rightarrow> (string \<times> jsval) list \<Rightarrow> (string \<times> schema) list" where
  "declared_keys props kvs =
     [(k, c). k \<leftarrow> Set_of (keysOf kvs), c \<leftarrow> present (map_of props k)]"

text \<open>Inputs of the runs below.\<close>

definition range_0_10_by_3 :: NumberOptions where
  "range_0_10_by_3 =
     \<lparr>opt_multipleOf = Some (Finite 3), opt_maximum = Some (Finite 10),
      opt_exclusiveMaximum = None, opt_minimum = Some (Finite 0),
      opt_exclusiveMinimum = None\<rparr>"

definition with_pattern :: "string \<Rightarrow> StringOptions" where
  "with_pattern p = \<lparr>opt_maxLength = None, opt_minLength = None, opt_pattern = Some p\<rparr>"

definition exclusive_0_10 :: NumberOptions where
  "exclusive_0_10 =
     \<lparr>opt_multipleOf = None, opt_maximum = None, opt_exclusiveMaximum = Some (Finite 10),
      opt_minimum = None, opt_exclusiveMinimum = Some (Finite 0)\<rparr>"

text \<open>
  A run with two undeclared keys, one missing required key and two declared keys, in
  the value in the order opposite to the one of the properties.
\<close>

definition abr_properties :: "(string \<times> schema) list" where
  "abr_properties =
     [(''a'', T_boolean), (''b'', T_optional T_null), (''r'', T_number range_0_10_by_3)]"

definition cbad_value :: "(string \<times> jsval) list" where
  "cbad_value = [(''c'', JNull), (''b'', JBool True), (''a'', JNull), (''d'', JBool False)]"

definition abr_child :: "string \<Rightarrow> schema \<Rightarrow> ValidationIssue list" where
  "abr_child k c =
     (if k = ''b''
      then [\<lparr>issue_type = INVALID_TYPE,
             message = [Lit ''Invalid type, expected null, got '', Inspect (JBool True)],
             issue_path = ''/b''\<rparr>]
      else [\<lparr>issue_type = INVALID_TYPE,
             message = [Lit ''Invalid type, expected boolean, got '', Inspect JNull],
             issue_path = ''/a''\<rparr>])"

section \<open>Unfolding the dispatch\<close>

lemmas variant_defs =
  isBooleanType_def isNullType_def isNumberType_def isStringType_def isUndefinedType_def
  isArrayType_def isTupleType_def isRecordType_def isObjectType_def

lemma typeof_string: "typeof t = ''string'' \<longleftrightarrow> (\<exists>s. t = JStr s)"
  by (cases t) simp_all

lemma isSchemaType_iff: "isSchemaType v \<longleftrightarrow> (\<exists>t. type v = Some (JStr t))"
  by (simp add: isSchemaType_def typeof_string split: option.splits)

lemma validateWithPath_not_schema:
  "\<not> isSchemaType schema \<Longrightarrow>
   validateWithPath RegExp path schema v = Inr (invalidSchema path)"
  by (simp add: validateWithPath.simps [of RegExp path schema v])

lemma validateWithPath_unknown_tag:
  assumes "type schema = Some (JStr t)" and "t \<notin> set variant_names"
  shows "validateWithPath RegExp path schema v =
    Inr [\<lparr>issue_type = INVALID_SCHEMA, message = [Lit ''Unable to validate type''],
          issue_path = path\<rparr>]"
  using assms
  by (simp add: validateWithPath.simps [of RegExp path schema v] isSchemaType_def variant_defs
      variant_names_def)

text \<open>An \<open>object\<close>-tagged schema without \<open>properties\<close>, on an object.\<close>

lemma validateWithPath_no_properties:
  assumes "isObjectType schema" and "properties schema = None"
  shows "validateWithPath RegExp path schema (JObj kvs) = Inl TypeError"
  using assms
  by (simp add: validateWithPath.simps [of RegExp path schema "JObj kvs"] isSchemaType_def
      variant_defs)

text \<open>No branch of the dispatch reads a marker of the schema it is given.\<close>

lemma validateWithPath_flags:
  "validateWithPath RegExp path
     (Schema t mo ma ema mi emi mxl mnl pat it ap props req opt ro) v =
   validateWithPath RegExp path
     (Schema t mo ma ema mi emi mxl mnl pat it ap props req opt' ro') v"
  by (simp add:
      validateWithPath.simps
        [of RegExp path "Schema t mo ma ema mi emi mxl mnl pat it ap props req opt ro" v]
      validateWithPath.simps
        [of RegExp path "Schema t mo ma ema mi emi mxl mnl pat it ap props req opt' ro'" v]
      isSchemaType_def variant_defs number_issues_def string_issues_def tuple_items_def Let_def
      cong: jsval.case_cong option.case_cong if_cong)

section \<open>Record schemas\<close>

text \<open>
  C1. The claim: on a record schema and an object value, validation recurses into every
  key of the value against the \<open>additionalProperties\<close> child and returns the child
  issues. The code does not: \<open>validateWithPath\<close> never consults \<open>isRecordType\<close>, a
  record schema is caught by \<open>isObjectType\<close>, and \<open>keysOf(schema.properties)\<close> is
  \<open>Object.keys(undefined)\<close>, which throws a \<open>TypeError\<close>, whatever the keys of the value
  are. The run below is the record of booleans on the object \<open>{a: true}\<close>.
\<close>

theorem record_schema_on_object_throws:
  "validate literal_RegExp (T_record T_boolean) (JObj [(''a'', JBool True)]) = Inl TypeError"
  by (simp add: validate_def validateWithPath_no_properties T_record_def isObjectType_def)

section \<open>Modifiers\<close>

text \<open>
  C3. The claim: \<open>isOptional(optional(optional(S)))\<close>, \<open>isReadonly(optional(readonly(S)))\<close>
  and \<open>isOptional(optional(readonly(S)))\<close> are all true. The first and the third hold.
  The second does not: \<open>optional\<close> marks a spread copy of its argument, and the spread
  leaves the non-enumerable \<open>READONLY\<close> marker behind.
\<close>

theorem optional_drops_readonly_marker:
  "isOptional (T_optional (T_optional S)) \<and> isOptional (T_optional (T_readonly S)) \<and>
   \<not> isReadonly (T_optional (T_readonly S))"
  by (cases S) (simp add: isOptional_def isReadonly_def T_optional_def T_readonly_def)

text \<open>
  C10. Attaching a modifier does not change validation: \<open>validate(optional(S), v)\<close> and
  \<open>validate(readonly(S), v)\<close> are both \<open>validate(S, v)\<close>, for every schema and value,
  an exception included.
\<close>

theorem modifiers_do_not_change_validation:
  "validate RegExp (T_optional S) v = validate RegExp S v \<and>
   validate RegExp (T_readonly S) v = validate RegExp S v"
proof (cases S)
  case (Schema t mo ma ema mi emi mxl mnl pat it ap props req opt ro)
  then show ?thesis
    by (simp add: validate_def T_optional_def T_readonly_def
        validateWithPath_flags [where opt = True and ro = False and opt' = opt and ro' = ro]
        validateWithPath_flags [where opt = False and ro = True and opt' = opt and ro' = ro])
qed

theorem modifiers_do_not_change_validation_witness:
  "validate literal_RegExp (T_optional T_null) (JBool True) =
     validate literal_RegExp T_null (JBool True) \<and>
   validate literal_RegExp (T_readonly T_null) (JBool True) =
     validate literal_RegExp T_null (JBool True)"
  using modifiers_do_not_change_validation [of literal_RegExp T_null "JBool True"] by simp

section \<open>Schema validity and variant predicates\<close>

text \<open>
  C6. For every value, \<open>validate(T.any(), v)\<close> is exactly one issue: \<open>INVALID_SCHEMA\<close>,
  message "Invalid schema", at the root path, the empty string. The object \<open>any()\<close>
  builds has no tag, so the schema-validity check fails and nothing else is looked at.
\<close>

theorem any_is_invalid_schema:
  "validate RegExp T_any v =
     Inr [\<lparr>issue_type = INVALID_SCHEMA, message = [Lit ''Invalid schema''],
           issue_path = []\<rparr>]"
  by (simp add: validate_def validateWithPath_not_schema isSchemaType_def T_any_def
      invalidSchema_def)

theorem any_is_invalid_schema_witness:
  "validate literal_RegExp T_any (JObj [(''a'', JNull)]) =
     Inr [\<lparr>issue_type = INVALID_SCHEMA, message = [Lit ''Invalid schema''],
           issue_path = []\<rparr>]"
  using any_is_invalid_schema [of literal_RegExp "JObj [(''a'', JNull)]"] by simp

text \<open>
  C5, as the specification has it: \<open>isSchemaType\<close> is false of every value whose tag is
  absent or is not one of the variant names. It is not: the object \<open>{type: 'bogus'}\<close>
  passes.
\<close>

theorem unknown_tag_passes_isSchemaType:
  "isSchemaType (Schema (Some (JStr ''bogus'')) None None None None None None None None None
     None None None False False) \<and> ''bogus'' \<notin> set variant_names"
  by (simp add: isSchemaType_def variant_names_def)

text \<open>
  C5, amended. Of an object, \<open>isSchemaType\<close> is false exactly when the tag is absent or
  is not a string; it does not compare the tag with the variant names. A schema whose tag
  is a string outside the variant names passes it, matches no variant, and
  \<open>validateWithPath\<close> ends in its last line: one \<open>INVALID_SCHEMA\<close> issue, "Unable to
  validate type", at the current path.
\<close>

theorem isSchemaType_tests_string_tag:
  "(isSchemaType s \<longleftrightarrow> (\<exists>t. type s = Some (JStr t))) \<and>
   (type s = Some (JStr t) \<and> t \<notin> set variant_names \<longrightarrow>
      validateWithPath RegExp path s v =
        Inr [\<lparr>issue_type = INVALID_SCHEMA, message = [Lit ''Unable to validate type''],
              issue_path = path\<rparr>])"
  using isSchemaType_iff validateWithPath_unknown_tag by blast

theorem isSchemaType_tests_string_tag_witness:
  "isSchemaType (Schema (Some (JStr ''bogus'')) None None None None None None None None None
     None None None False False) \<and>
   validateWithPath literal_RegExp ''/a''
     (Schema (Some (JStr ''bogus'')) None None None None None None None None None
        None None None False False) JNull =
     Inr [\<lparr>issue_type = INVALID_SCHEMA, message = [Lit ''Unable to validate type''],
           issue_path = ''/a''\<rparr>]"
  using isSchemaType_tests_string_tag
    [of "Schema (Some (JStr ''bogus'')) None None None None None None None None None
          None None None False False" "''bogus''" literal_RegExp "''/a''" JNull]
  by (simp add: variant_names_def)

text \<open>
  C4, as the specification has it: exactly one of the nine variant predicates holds of a
  value that \<open>isSchemaType\<close> accepts, and of a record schema \<open>isRecordType\<close> alone. Two
  hold of the record of booleans: \<open>isObjectType\<close> tests the tag and nothing else.
\<close>

theorem record_is_object_too:
  "isSchemaType (T_record T_boolean) \<and> isRecordType (T_record T_boolean) \<and>
   isObjectType (T_record T_boolean) \<and> holding (T_record T_boolean) = 2"
  by (simp add: T_record_def T_boolean_def isSchemaType_def holding_def
      variant_predicates_def variant_defs)

text \<open>
  C4, amended. Of a value that \<open>isSchemaType\<close> accepts and whose tag is one of the seven
  variant names, exactly one of the nine predicates holds, unless it is a record schema
  (tag \<open>object\<close>, \<open>additionalProperties\<close> present): of that one two hold,
  \<open>isRecordType\<close> and \<open>isObjectType\<close>. Of an accepted value with any other tag none
  holds.
\<close>

theorem variant_predicates_count:
  assumes "isSchemaType s"
  shows "holding s =
     (if \<forall>n \<in> set variant_names. type s \<noteq> Some (JStr n) then 0
      else if isRecordType s then 2 else 1) \<and>
     (isRecordType s \<longrightarrow> isObjectType s)"
proof -
  from assms obtain t where t: "type s = Some (JStr t)"
    by (auto simp: isSchemaType_iff)
  show ?thesis
    by (cases "isArray_items (items s)"; cases "additionalProperties s = None")
       (simp_all add: t holding_def variant_predicates_def variant_defs variant_names_def)
qed

theorem variant_predicates_count_witness:
  "isSchemaType (T_tuple [T_null]) \<and> holding (T_tuple [T_null]) = 1 \<and>
   \<not> isRecordType (T_tuple [T_null])"
proof -
  have s: "isSchemaType (T_tuple [T_null])"
    by (simp add: isSchemaType_def T_tuple_def)
  show ?thesis
    using s variant_predicates_count [OF s]
    by (simp add: T_tuple_def variant_names_def isRecordType_def)
qed

section \<open>Number schemas\<close>

lemma validateWithPath_number:
  assumes "isNumberType schema"
  shows "validateWithPath RegExp path schema v =
    (case v of JNum n \<Rightarrow> Inr (number_issues schema n path)
     | _ \<Rightarrow> Inr [invalidTypeIssue ''number'' v path])"
  using assms
  by (simp add: validateWithPath.simps [of RegExp path schema v] isSchemaType_def variant_defs)

text \<open>
  The operators of the constraints, on finite numbers: the four comparisons are the
  order of the numbers, and the remainder is zero exactly when the divisor is not zero
  and the dividend is an integer multiple of it.
\<close>

lemma js_compare_Finite:
  "js_gt (Finite a) (Finite b) = (b < a)"
  "js_ge (Finite a) (Finite b) = (b \<le> a)"
  "js_lt (Finite a) (Finite b) = (a < b)"
  "js_le (Finite a) (Finite b) = (a \<le> b)"
  by (auto simp: js_gt_def js_ge_def)

lemma trunc_to_zero_of_int: "trunc_to_zero (of_int k) = k"
  by (simp add: trunc_to_zero_def)

lemma js_rem_Finite_zero:
  "js_rem (Finite a) (Finite b) = Finite 0 \<longleftrightarrow> b \<noteq> 0 \<and> (\<exists>k::int. a = of_int k * b)"
proof (cases "b = 0")
  case True
  then show ?thesis by simp
next
  case False
  show ?thesis
  proof
    assume "js_rem (Finite a) (Finite b) = Finite 0"
    with False have "a = of_int (trunc_to_zero (a / b)) * b"
      by (simp add: mult.commute)
    with False show "b \<noteq> 0 \<and> (\<exists>k::int. a = of_int k * b)"
      by blast
  next
    assume "b \<noteq> 0 \<and> (\<exists>k::int. a = of_int k * b)"
    then obtain k :: int where k: "a = of_int k * b"
      by blast
    with False have "a / b = of_int k"
      by simp
    then have "trunc_to_zero (a / b) = k"
      by (simp add: trunc_to_zero_of_int)
    with False k show "js_rem (Finite a) (Finite b) = Finite 0"
      by (simp add: mult.commute)
  qed
qed

text \<open>Every comparison with \<open>NaN\<close> is false, and a remainder that is \<open>NaN\<close> is not zero.\<close>

lemma js_compare_NaN:
  "\<not> js_gt NaN m" "\<not> js_ge NaN m" "\<not> js_lt NaN m" "\<not> js_le NaN m"
  "\<not> js_gt v NaN" "\<not> js_ge v NaN" "\<not> js_lt v NaN" "\<not> js_le v NaN"
  "js_rem NaN m \<noteq> Finite 0" "js_rem v NaN \<noteq> Finite 0" "js_rem v (Finite 0) \<noteq> Finite 0"
  by (cases m; cases v; simp add: js_gt_def js_ge_def)+

text \<open>
  C7. On a number schema and a number \<open>v\<close>, the result is the \<open>INVALID_VALUE\<close> issues of
  the violated constraints among those present, each checked whatever the others gave,
  in the order \<open>multipleOf\<close>, \<open>maximum\<close>, \<open>exclusiveMaximum\<close>, \<open>minimum\<close>,
  \<open>exclusiveMinimum\<close>: \<open>multipleOf\<close> is violated when \<open>v % multipleOf\<close> is not zero,
  \<open>maximum\<close> when \<open>v > maximum\<close>, \<open>exclusiveMaximum\<close> when \<open>v >= exclusiveMaximum\<close>,
  \<open>minimum\<close> when \<open>v < minimum\<close>, \<open>exclusiveMinimum\<close> when \<open>v <= exclusiveMinimum\<close>.
  On a value that is not a number the result is exactly one issue, of type
  \<open>INVALID_TYPE\<close>, and nothing of the constraints. The last five lines say what the
  operators are on finite numbers.
\<close>

theorem number_constraints_independent:
  assumes "isNumberType schema"
  shows "validateWithPath RegExp path schema (JNum v) = Inr (
      [\<lparr>issue_type = INVALID_VALUE,
         message = [Lit ''Value must be a multiple of '', Num m], issue_path = path\<rparr>.
         m \<leftarrow> present (multipleOf schema), js_rem v m \<noteq> Finite 0] @
      [\<lparr>issue_type = INVALID_VALUE,
         message = [Lit ''Value must be less than or equal to '', Num m,
                    Lit '', instead was '', Num v], issue_path = path\<rparr>.
         m \<leftarrow> present (maximum schema), js_gt v m] @
      [\<lparr>issue_type = INVALID_VALUE,
         message = [Lit ''Value must be strictly less than '', Num m,
                    Lit '', instead was '', Num v], issue_path = path\<rparr>.
         m \<leftarrow> present (exclusiveMaximum schema), js_ge v m] @
      [\<lparr>issue_type = INVALID_VALUE,
         message = [Lit ''Value must be greater than or equal to '', Num m,
                    Lit '', instead was '', Num v], issue_path = path\<rparr>.
         m \<leftarrow> present (minimum schema), js_lt v m] @
      [\<lparr>issue_type = INVALID_VALUE,
         message = [Lit ''Value must be strictly greater than '', Num m,
                    Lit '', instead was '', Num v], issue_path = path\<rparr>.
         m \<leftarrow> present (exclusiveMinimum schema), js_le v m]) \<and>
    (typeof x \<noteq> ''number'' \<longrightarrow>
       validateWithPath RegExp path schema x =
         Inr [\<lparr>issue_type = INVALID_TYPE,
               message = [Lit ''Invalid type, expected number, got '', Inspect x],
               issue_path = path\<rparr>]) \<and>
    (js_rem (Finite a) (Finite b) \<noteq> Finite 0 \<longleftrightarrow> b = 0 \<or> (\<forall>k::int. a \<noteq> of_int k * b)) \<and>
    (js_gt (Finite a) (Finite b) \<longleftrightarrow> b < a) \<and>
    (js_ge (Finite a) (Finite b) \<longleftrightarrow> b \<le> a) \<and>
    (js_lt (Finite a) (Finite b) \<longleftrightarrow> a < b) \<and>
    (js_le (Finite a) (Finite b) \<longleftrightarrow> a \<le> b)"
proof (intro conjI)
  show "validateWithPath RegExp path schema (JNum v) = Inr (
      [\<lparr>issue_type = INVALID_VALUE,
         message = [Lit ''Value must be a multiple of '', Num m], issue_path = path\<rparr>.
         m \<leftarrow> present (multipleOf schema), js_rem v m \<noteq> Finite 0] @
      [\<lparr>issue_type = INVALID_VALUE,
         message = [Lit ''Value must be less than or equal to '', Num m,
                    Lit '', instead was '', Num v], issue_path = path\<rparr>.
         m \<leftarrow> present (maximum schema), js_gt v m] @
      [\<lparr>issue_type = INVALID_VALUE,
         message = [Lit ''Value must be strictly less than '', Num m,
                    Lit '', instead was '', Num v], issue_path = path\<rparr>.
         m \<leftarrow> present (exclusiveMaximum schema), js_ge v m] @
      [\<lparr>issue_type = INVALID_VALUE,
         message = [Lit ''Value must be greater than or equal to '', Num m,
                    Lit '', instead was '', Num v], issue_path = path\<rparr>.
         m \<leftarrow> present (minimum schema), js_lt v m] @
      [\<lparr>issue_type = INVALID_VALUE,
         message = [Lit ''Value must be strictly greater than '', Num m,
                    Lit '', instead was '', Num v], issue_path = path\<rparr>.
         m \<leftarrow> present (exclusiveMinimum schema), js_le v m])"
    by (simp add: validateWithPath_number [OF assms] number_issues_def present_def
        split: option.splits)
next
  show "typeof x \<noteq> ''number'' \<longrightarrow>
       validateWithPath RegExp path schema x =
         Inr [\<lparr>issue_type = INVALID_TYPE,
               message = [Lit ''Invalid type, expected number, got '', Inspect x],
               issue_path = path\<rparr>]"
    by (cases x) (simp_all add: validateWithPath_number [OF assms] invalidTypeIssue_def)
next
  show "js_rem (Finite a) (Finite b) \<noteq> Finite 0 \<longleftrightarrow> b = 0 \<or> (\<forall>k::int. a \<noteq> of_int k * b)"
    using js_rem_Finite_zero [of a b] by blast
qed (simp_all only: js_compare_Finite)

lemma rem_1000_3: "js_rem (Finite (- 1000)) (Finite 3) = Finite (- 1)"
  by code_simp

lemma rem_12_3: "js_rem (Finite 12) (Finite 3) = Finite 0"
  by code_simp

theorem number_constraints_independent_witness:
  "isNumberType (T_number range_0_10_by_3) \<and>
   validateWithPath literal_RegExp [] (T_number range_0_10_by_3) (JNum (Finite (- 1000))) =
     Inr [\<lparr>issue_type = INVALID_VALUE,
           message = [Lit ''Value must be a multiple of '', Num (Finite 3)],
           issue_path = []\<rparr>,
          \<lparr>issue_type = INVALID_VALUE,
           message = [Lit ''Value must be greater than or equal to '', Num (Finite 0),
                      Lit '', instead was '', Num (Finite (- 1000))],
           issue_path = []\<rparr>] \<and>
   validateWithPath literal_RegExp [] (T_number range_0_10_by_3) (JNum (Finite 12)) =
     Inr [\<lparr>issue_type = INVALID_VALUE,
           message = [Lit ''Value must be less than or equal to '', Num (Finite 10),
                      Lit '', instead was '', Num (Finite 12)],
           issue_path = []\<rparr>] \<and>
   validateWithPath literal_RegExp [] (T_number range_0_10_by_3) (JStr ''1'') =
     Inr [\<lparr>issue_type = INVALID_TYPE,
           message = [Lit ''Invalid type, expected number, got '', Inspect (JStr ''1'')],
           issue_path = []\<rparr>] \<and>
   isNumberType (T_number exclusive_0_10) \<and>
   validateWithPath literal_RegExp ''/n'' (T_number exclusive_0_10) (JNum (Finite 10)) =
     Inr [\<lparr>issue_type = INVALID_VALUE,
           message = [Lit ''Value must be strictly less than '', Num (Finite 10),
                      Lit '', instead was '', Num (Finite 10)],
           issue_path = ''/n''\<rparr>] \<and>
   validateWithPath literal_RegExp ''/n'' (T_number exclusive_0_10) (JNum (Finite 0)) =
     Inr [\<lparr>issue_type = INVALID_VALUE,
           message = [Lit ''Value must be strictly greater than '', Num (Finite 0),
                      Lit '', instead was '', Num (Finite 0)],
           issue_path = ''/n''\<rparr>] \<and>
   validateWithPath literal_RegExp ''/n'' (T_number exclusive_0_10) (JNum (Finite 5)) = Inr [] \<and>
   js_rem (Finite 7) (Finite 2) \<noteq> Finite 0 \<and> js_ge (Finite 10) (Finite 10) \<and>
   js_le (Finite 0) (Finite 0) \<and> \<not> js_gt (Finite 10) (Finite 10) \<and>
   \<not> js_lt (Finite 0) (Finite 0)"
proof -
  have n: "isNumberType (T_number range_0_10_by_3)"
    by (simp add: isNumberType_def T_number_def)
  have e: "isNumberType (T_number exclusive_0_10)"
    by (simp add: isNumberType_def T_number_def)
  have odd: "\<forall>k::int. (7::rat) \<noteq> of_int k * 2"
  proof
    fix k :: int
    have "(7::int) \<noteq> k * 2" by presburger
    then have "(of_int 7 :: rat) \<noteq> of_int (k * 2)"
      by (simp only: of_int_eq_iff) simp
    then show "(7::rat) \<noteq> of_int k * 2" by simp
  qed
  note r = number_constraints_independent [OF n, of literal_RegExp "[]"]
  note x = number_constraints_independent [OF e, of literal_RegExp "''/n''"]
  show ?thesis
    using n e odd
      r [of "Finite (- 1000)" "JStr ''1''" 7 2]
      r [of "Finite 12" "JStr ''1''" 10 10]
      x [of "Finite 10" "JNull" 0 0]
      x [of "Finite 0" "JNull" 0 0]
      x [of "Finite 5" "JNull" 0 0]
    by (simp add: rem_1000_3 rem_12_3 T_number_def range_0_10_by_3_def exclusive_0_10_def
        present_def js_gt_def js_ge_def del: js_rem.simps)
qed

section \<open>Object schemas\<close>

lemma set_Set_of [simp]: "set (Set_of xs) = set xs"
  by (induction xs) auto

lemma distinct_Set_of [simp]: "distinct (Set_of xs)"
  by (induction xs) auto

lemma Set_of_distinct: "distinct xs \<Longrightarrow> Set_of xs = xs"
  by (induction xs) (auto simp: filter_id_conv)

lemma Set_of_filter [simp]: "Set_of (filter P (Set_of xs)) = filter P (Set_of xs)"
  by (simp add: Set_of_distinct)

text \<open>
  The loop over the keys of the value, which skips the keys that are not declared, is the
  loop over the declared ones, each with its property schema.
\<close>

lemma flatMap_declared:
  "flatMap (\<lambda>key. if key \<in> set (keysOf props)
                  then (case map_of props key of
                          Some c \<Rightarrow> f key c
                        | None \<Rightarrow> g key)
                  else Inr []) ks =
   flatMap (\<lambda>(k, c). f k c) [(k, c). k \<leftarrow> ks, c \<leftarrow> present (map_of props k)]"
proof (induction ks)
  case Nil
  show ?case by simp
next
  case (Cons k ks)
  show ?case
  proof (cases "map_of props k")
    case None
    then have "k \<notin> set (keysOf props)"
      by (simp add: keysOf_def map_of_eq_None_iff)
    with None Cons show ?thesis by (simp add: present_def split: sum.splits)
  next
    case (Some c)
    then have "k \<in> set (keysOf props)"
      by (auto simp: keysOf_def dest: map_of_SomeD intro: rev_image_eqI)
    with Some Cons show ?thesis by (simp add: present_def split: sum.splits)
  qed
qed

text \<open>
  A loop all of whose calls return gives their results in iteration order; a loop one of
  whose calls throws, throws.
\<close>

lemma flatMap_all_return_keys:
  "list_all (\<lambda>(k, c). f k c = Inr (g k c)) xs \<Longrightarrow>
   flatMap (\<lambda>(k, c). f k c) xs = Inr (concat (map (\<lambda>(k, c). g k c) xs))"
  by (induction xs) auto

lemma flatMap_throws_keys:
  "\<exists>(k, c) \<in> set xs. \<exists>e. f k c = Inl e \<Longrightarrow> \<exists>e. flatMap (\<lambda>(k, c). f k c) xs = Inl e"
proof (induction xs)
  case Nil
  then show ?case by simp
next
  case (Cons x xs)
  obtain k c where x: "x = (k, c)" by (cases x)
  show ?case
  proof (cases "f k c")
    case (Inl e)
    with x show ?thesis by simp
  next
    case (Inr ys)
    with Cons.prems x have "\<exists>(k, c) \<in> set xs. \<exists>e. f k c = Inl e" by auto
    then obtain e where "flatMap (\<lambda>(k, c). f k c) xs = Inl e"
      using Cons.IH by blast
    with Inr x show ?thesis by simp
  qed
qed

lemma validateWithPath_object:
  assumes "isObjectType schema" and "properties schema = Some props"
  shows "validateWithPath RegExp path schema (JObj kvs) =
    (case flatMap (\<lambda>(k, c). validateWithPath RegExp (path @ ''/'' @ k) c (get kvs k))
            (declared_keys props kvs) of
       Inl e \<Rightarrow> Inl e
     | Inr children \<Rightarrow>
         Inr ((if extra_keys props kvs \<noteq> []
               then [\<lparr>issue_type = INVALID_TYPE,
                      message = [Lit (''Unexpected keys: '' @
                                   join '', '' (extra_keys props kvs))],
                      issue_path = path\<rparr>]
               else []) @
              (if missing_keys (required schema) kvs \<noteq> []
               then [\<lparr>issue_type = INVALID_TYPE,
                      message = [Lit (''Missing required keys: '' @
                                   join '', '' (missing_keys (required schema) kvs))],
                      issue_path = path\<rparr>]
               else []) @
              children))"
  using assms
  by (simp add: validateWithPath.simps [of RegExp path schema "JObj kvs"] isSchemaType_def
      variant_defs Let_def key_issues_def flatMap_declared extra_keys_def missing_keys_def
      declared_keys_def cong: sum.case_cong)

text \<open>The declared keys are the value keys that are keys of the properties, in order.\<close>

lemma map_fst_declared_keys:
  "map fst (declared_keys props kvs) =
     filter (\<lambda>k. k \<in> set (keysOf props)) (Set_of (keysOf kvs))"
proof -
  have "map fst [(k, c). k \<leftarrow> ks, c \<leftarrow> present (map_of props k)] =
      filter (\<lambda>k. k \<in> set (keysOf props)) ks" for ks
  proof (induction ks)
    case Nil
    show ?case by simp
  next
    case (Cons k ks)
    show ?case
    proof (cases "map_of props k")
      case None
      then have "k \<notin> set (keysOf props)"
        by (simp add: keysOf_def map_of_eq_None_iff)
      with None Cons show ?thesis by (simp add: present_def)
    next
      case (Some c)
      then have "k \<in> set (keysOf props)"
        by (auto simp: keysOf_def dest: map_of_SomeD intro: rev_image_eqI)
      with Some Cons show ?thesis by (simp add: present_def)
    qed
  qed
  then show ?thesis by (simp add: declared_keys_def)
qed

text \<open>
  C8, as the specification has it: on every object-with-properties schema and every
  object value, \<open>validate\<close> returns the key issues and then the child issues. It does
  not when a recursive call throws: with a property \<open>s\<close> whose pattern is the
  unterminated class \<open>[\<close>, on the object \<open>{x: null, s: 'a'}\<close>, the \<open>SyntaxError\<close> of the
  call at \<open>/s\<close> leaves \<open>validate\<close>, and no "Unexpected keys" issue is returned.
\<close>

theorem object_child_throws:
  "isObjectType (T_object [(''s'', T_string (with_pattern ''[''))]) \<and>
   properties (T_object [(''s'', T_string (with_pattern ''[''))]) =
     Some [(''s'', T_string (with_pattern ''[''))] \<and>
   validate literal_RegExp (T_object [(''s'', T_string (with_pattern ''[''))])
     (JObj [(''x'', JNull), (''s'', JStr ''a'')]) = Inl SyntaxError"
proof (intro conjI)
  show "isObjectType (T_object [(''s'', T_string (with_pattern ''[''))])"
    by (simp add: isObjectType_def T_object_def Let_def)
  show "properties (T_object [(''s'', T_string (with_pattern ''[''))]) =
     Some [(''s'', T_string (with_pattern ''[''))]"
    by (simp add: T_object_def Let_def)
  show "validate literal_RegExp (T_object [(''s'', T_string (with_pattern ''[''))])
     (JObj [(''x'', JNull), (''s'', JStr ''a'')]) = Inl SyntaxError"
    by code_simp
qed

text \<open>
  C8, amended. On an object-with-properties schema and an object value such that every
  recursive call at \<open>path/key\<close> on a value key that is a declared property returns, the
  call returns, in this order: the one \<open>INVALID_TYPE\<close> issue "Unexpected keys", the
  undeclared value keys joined by a comma in their iteration order, exactly when there
  is such a key; the one \<open>INVALID_TYPE\<close> issue "Missing required keys" exactly when a
  required key is not a key of the value; the issues of those recursive calls, in the
  iteration order of the value keys. No other key is recursed into. When one of those
  recursive calls throws, the call throws and returns no issue.
\<close>

theorem object_issues_in_order:
  assumes "isObjectType schema" and "properties schema = Some props"
  shows "(list_all (\<lambda>(k, c). validateWithPath RegExp (path @ ''/'' @ k) c (get kvs k) =
                      Inr (child k c))
            (declared_keys props kvs) \<longrightarrow>
          validateWithPath RegExp path schema (JObj kvs) =
            Inr ((if extra_keys props kvs \<noteq> []
                  then [\<lparr>issue_type = INVALID_TYPE,
                         message = [Lit (''Unexpected keys: '' @
                                      join '', '' (extra_keys props kvs))],
                         issue_path = path\<rparr>]
                  else []) @
                 (if missing_keys (required schema) kvs \<noteq> []
                  then [\<lparr>issue_type = INVALID_TYPE,
                         message = [Lit (''Missing required keys: '' @
                                      join '', '' (missing_keys (required schema) kvs))],
                         issue_path = path\<rparr>]
                  else []) @
                 concat (map (\<lambda>(k, c). child k c) (declared_keys props kvs)))) \<and>
         ((\<exists>(k, c) \<in> set (declared_keys props kvs).
              \<exists>e. validateWithPath RegExp (path @ ''/'' @ k) c (get kvs k) = Inl e) \<longrightarrow>
          (\<exists>e. validateWithPath RegExp path schema (JObj kvs) = Inl e)) \<and>
         map fst (declared_keys props kvs) =
           filter (\<lambda>k. k \<in> set (keysOf props)) (Set_of (keysOf kvs))"
proof (intro conjI impI)
  assume "list_all (\<lambda>(k, c). validateWithPath RegExp (path @ ''/'' @ k) c (get kvs k) =
                      Inr (child k c))
            (declared_keys props kvs)"
  then have "flatMap (\<lambda>(k, c). validateWithPath RegExp (path @ ''/'' @ k) c (get kvs k))
      (declared_keys props kvs) =
      Inr (concat (map (\<lambda>(k, c). child k c) (declared_keys props kvs)))"
    by (rule flatMap_all_return_keys)
  then show "validateWithPath RegExp path schema (JObj kvs) =
            Inr ((if extra_keys props kvs \<noteq> []
                  then [\<lparr>issue_type = INVALID_TYPE,
                         message = [Lit (''Unexpected keys: '' @
                                      join '', '' (extra_keys props kvs))],
                         issue_path = path\<rparr>]
                  else []) @
                 (if missing_keys (required schema) kvs \<noteq> []
                  then [\<lparr>issue_type = INVALID_TYPE,
                         message = [Lit (''Missing required keys: '' @
                                      join '', '' (missing_keys (required schema) kvs))],
                         issue_path = path\<rparr>]
                  else []) @
                 concat (map (\<lambda>(k, c). child k c) (declared_keys props kvs)))"
    by (simp only: validateWithPath_object [OF assms] sum.case)
next
  assume "\<exists>(k, c) \<in> set (declared_keys props kvs).
              \<exists>e. validateWithPath RegExp (path @ ''/'' @ k) c (get kvs k) = Inl e"
  then have "\<exists>e. flatMap (\<lambda>(k, c). validateWithPath RegExp (path @ ''/'' @ k) c (get kvs k))
      (declared_keys props kvs) = Inl e"
    by (rule flatMap_throws_keys)
  then obtain e where
    "flatMap (\<lambda>(k, c). validateWithPath RegExp (path @ ''/'' @ k) c (get kvs k))
      (declared_keys props kvs) = Inl e" ..
  then show "\<exists>e. validateWithPath RegExp path schema (JObj kvs) = Inl e"
    by (simp only: validateWithPath_object [OF assms] sum.case) blast
next
  show "map fst (declared_keys props kvs) =
           filter (\<lambda>k. k \<in> set (keysOf props)) (Set_of (keysOf kvs))"
    by (rule map_fst_declared_keys)
qed

theorem object_issues_in_order_witness:
  "isObjectType (T_object abr_properties) \<and>
   properties (T_object abr_properties) = Some abr_properties \<and>
   required (T_object abr_properties) = Some [''a'', ''r''] \<and>
   declared_keys abr_properties cbad_value = [(''b'', T_optional T_null), (''a'', T_boolean)] \<and>
   list_all (\<lambda>(k, c). validateWithPath literal_RegExp ([] @ ''/'' @ k) c (get cbad_value k) =
                Inr (abr_child k c))
     (declared_keys abr_properties cbad_value) \<and>
   validateWithPath literal_RegExp [] (T_object abr_properties) (JObj cbad_value) =
     Inr [\<lparr>issue_type = INVALID_TYPE, message = [Lit ''Unexpected keys: c, d''],
           issue_path = []\<rparr>,
          \<lparr>issue_type = INVALID_TYPE, message = [Lit ''Missing required keys: r''],
           issue_path = []\<rparr>,
          \<lparr>issue_type = INVALID_TYPE,
           message = [Lit ''Invalid type, expected null, got '', Inspect (JBool True)],
           issue_path = ''/b''\<rparr>,
          \<lparr>issue_type = INVALID_TYPE,
           message = [Lit ''Invalid type, expected boolean, got '', Inspect JNull],
           issue_path = ''/a''\<rparr>]"
proof -
  have o: "isObjectType (T_object abr_properties)"
    by (simp add: isObjectType_def T_object_def Let_def)
  have p: "properties (T_object abr_properties) = Some abr_properties"
    by (simp add: T_object_def Let_def)
  have r: "required (T_object abr_properties) = Some [''a'', ''r'']"
    by code_simp
  have d: "declared_keys abr_properties cbad_value =
      [(''b'', T_optional T_null), (''a'', T_boolean)]"
    by code_simp
  have x: "extra_keys abr_properties cbad_value = [''c'', ''d'']"
    by code_simp
  have m: "missing_keys (Some [''a'', ''r'']) cbad_value = [''r'']"
    by code_simp
  have b: "validateWithPath literal_RegExp ''/b'' (T_optional T_null) (get cbad_value ''b'') =
      Inr (abr_child ''b'' (T_optional T_null))"
    by code_simp
  have a: "validateWithPath literal_RegExp ''/a'' T_boolean (get cbad_value ''a'') =
      Inr (abr_child ''a'' T_boolean)"
    by code_simp
  have c: "list_all (\<lambda>(k, c). validateWithPath literal_RegExp ([] @ ''/'' @ k) c
                (get cbad_value k) = Inr (abr_child k c))
      (declared_keys abr_properties cbad_value)"
    by (simp add: d a b)
  show ?thesis
    using o p r d c object_issues_in_order
      [OF o p, of literal_RegExp "[]" cbad_value abr_child]
    by (simp add: x m abr_child_def)
qed

lemma validateWithPath_object_no_required:
  assumes "isObjectType schema" and "properties schema = Some props"
    and "required schema = None"
  shows "validateWithPath RegExp path schema (JObj kvs) =
    (let valueKeys = Set_of (keysOf kvs);
         extraKeys = filter (\<lambda>k. k \<notin> set (keysOf props)) valueKeys;
         declared = [(k, c). k \<leftarrow> valueKeys, c \<leftarrow> present (map_of props k)]
     in case flatMap (\<lambda>(k, c). validateWithPath RegExp (path @ ''/'' @ k) c (get kvs k))
               declared of
          Inl e \<Rightarrow> Inl e
        | Inr children \<Rightarrow>
            Inr ((if extraKeys \<noteq> []
                  then [\<lparr>issue_type = INVALID_TYPE,
                         message = [Lit (''Unexpected keys: '' @ join '', '' extraKeys)],
                         issue_path = path\<rparr>]
                  else []) @
                 children))"
  using assms
  by (simp add: validateWithPath.simps [of RegExp path schema "JObj kvs"] isSchemaType_def
      variant_defs Let_def key_issues_def flatMap_declared cong: sum.case_cong)

lemma set_required_of:
  "set (required_of P) = {k. \<exists>prop. map_of P k = Some prop \<and> \<not> isOptional prop}"
  by (auto simp: required_of_def keysOf_def isOptional_def split: option.splits
      dest: map_of_SomeD intro: rev_image_eqI)

text \<open>
  C9. The \<open>required\<close> that \<open>object(P)\<close> stores is the set of the keys of \<open>P\<close> whose
  property schema does not carry the optional marker; the field is left out exactly when
  that set is empty; and on a schema without the field, validation reports no missing
  key: the result is the "Unexpected keys" issue, if any, and the issues of the declared
  keys.
\<close>

theorem object_required_set:
  "(case required (T_object P) of None \<Rightarrow> {} | Some r \<Rightarrow> set r) =
     {k. \<exists>prop. map_of P k = Some prop \<and> \<not> isOptional prop} \<and>
   (required (T_object P) = None \<longleftrightarrow>
     {k. \<exists>prop. map_of P k = Some prop \<and> \<not> isOptional prop} = {}) \<and>
   (isObjectType schema \<and> properties schema = Some props \<and> required schema = None \<longrightarrow>
     validateWithPath RegExp path schema (JObj kvs) =
      (let valueKeys = Set_of (keysOf kvs);
           extraKeys = filter (\<lambda>k. k \<notin> set (keysOf props)) valueKeys;
           declared = [(k, c). k \<leftarrow> valueKeys, c \<leftarrow> present (map_of props k)]
       in case flatMap (\<lambda>(k, c). validateWithPath RegExp (path @ ''/'' @ k) c (get kvs k))
                 declared of
            Inl e \<Rightarrow> Inl e
          | Inr children \<Rightarrow>
              Inr ((if extraKeys \<noteq> []
                    then [\<lparr>issue_type = INVALID_TYPE,
                           message = [Lit (''Unexpected keys: '' @ join '', '' extraKeys)],
                           issue_path = path\<rparr>]
                    else []) @
                   children)))"
proof (intro conjI impI)
  have stored: "required (T_object P) =
      (if required_of P = [] then None else Some (required_of P))"
    by (simp add: T_object_def Let_def)
  show "(case required (T_object P) of None \<Rightarrow> {} | Some r \<Rightarrow> set r) =
     {k. \<exists>prop. map_of P k = Some prop \<and> \<not> isOptional prop}"
    unfolding set_required_of [symmetric] by (simp add: stored)
  show "required (T_object P) = None \<longleftrightarrow>
     {k. \<exists>prop. map_of P k = Some prop \<and> \<not> isOptional prop} = {}"
    unfolding set_required_of [symmetric] by (simp add: stored)
next
  assume "isObjectType schema \<and> properties schema = Some props \<and> required schema = None"
  then show "validateWithPath RegExp path schema (JObj kvs) =
      (let valueKeys = Set_of (keysOf kvs);
           extraKeys = filter (\<lambda>k. k \<notin> set (keysOf props)) valueKeys;
           declared = [(k, c). k \<leftarrow> valueKeys, c \<leftarrow> present (map_of props k)]
       in case flatMap (\<lambda>(k, c). validateWithPath RegExp (path @ ''/'' @ k) c (get kvs k))
                 declared of
            Inl e \<Rightarrow> Inl e
          | Inr children \<Rightarrow>
              Inr ((if extraKeys \<noteq> []
                    then [\<lparr>issue_type = INVALID_TYPE,
                           message = [Lit (''Unexpected keys: '' @ join '', '' extraKeys)],
                           issue_path = path\<rparr>]
                    else []) @
                   children))"
    by (simp add: validateWithPath_object_no_required)
qed

theorem object_required_set_witness:
  "required (T_object [(''a'', T_boolean), (''b'', T_optional T_null)]) = Some [''a''] \<and>
   isObjectType (T_object [(''b'', T_optional T_null)]) \<and>
   properties (T_object [(''b'', T_optional T_null)]) = Some [(''b'', T_optional T_null)] \<and>
   required (T_object [(''b'', T_optional T_null)]) = None \<and>
   validateWithPath literal_RegExp [] (T_object [(''b'', T_optional T_null)]) (JObj []) =
     Inr []"
proof -
  have a: "required (T_object [(''a'', T_boolean), (''b'', T_optional T_null)]) = Some [''a'']"
    by code_simp
  have o: "isObjectType (T_object [(''b'', T_optional T_null)])"
    by (simp add: isObjectType_def T_object_def Let_def)
  have p: "properties (T_object [(''b'', T_optional T_null)]) =
      Some [(''b'', T_optional T_null)]"
    by (simp add: T_object_def Let_def)
  have r: "required (T_object [(''b'', T_optional T_null)]) = None"
    by code_simp
  show ?thesis
    using a o p r object_required_set
      [of "[(''b'', T_optional T_null)]" "T_object [(''b'', T_optional T_null)]"
          "[(''b'', T_optional T_null)]" literal_RegExp "[]" "[]"]
    by (simp add: keysOf_def)
qed

section \<open>Exceptions\<close>

lemma flatMap_returns:
  "(\<And>x. x \<in> set xs \<Longrightarrow> \<exists>ys. f x = Inr ys) \<Longrightarrow> \<exists>zs. flatMap f xs = Inr zs"
proof (induction xs)
  case Nil
  show ?case by simp
next
  case (Cons x xs)
  from Cons.prems obtain ys where ys: "f x = Inr ys" by auto
  from Cons obtain zs where zs: "flatMap f xs = Inr zs" by auto
  show ?case by (simp add: ys zs)
qed

lemma string_issues_returns:
  "(case pattern schema of None \<Rightarrow> True | Some p \<Rightarrow> RegExp p \<noteq> None) \<Longrightarrow>
   \<exists>issues. string_issues RegExp schema s path = Inr issues"
  by (auto simp: string_issues_def Let_def split: option.splits)

lemma validateWithPath_bad_pattern:
  assumes "isStringType schema" and "pattern schema = Some p" and "RegExp p = None"
  shows "validateWithPath RegExp path schema (JStr x) = Inl SyntaxError"
  using assms
  by (simp add: validateWithPath.simps [of RegExp path schema "JStr x"] isSchemaType_def
      variant_defs string_issues_def Let_def)

lemma validateWithPath_returns:
  "throw_free RegExp schema \<Longrightarrow> \<exists>issues. validateWithPath RegExp path schema v = Inr issues"
proof (induction RegExp schema arbitrary: path v rule: throw_free.induct)
  case (1 RegExp schema)
  note tf = "1.prems" [unfolded throw_free.simps [of RegExp schema]]
  show ?case
  proof (cases "isSchemaType schema \<and> \<not> isBooleanType schema \<and> \<not> isNullType schema \<and>
      \<not> isNumberType schema")
    case False
    then show ?thesis
      by (auto simp: validateWithPath.simps [of RegExp path schema] split: jsval.splits)
  next
    case base: True
    show ?thesis
    proof (cases "isStringType schema")
      case True
      with base tf show ?thesis
        by (cases v)
          (auto simp: validateWithPath.simps [of RegExp path schema]
            intro: string_issues_returns)
    next
      case nstr': False
      have "isUndefinedType schema \<Longrightarrow> ?thesis"
        using base nstr'
        by (simp add: validateWithPath.simps [of RegExp path schema])
      moreover have "?thesis" if nund: "\<not> isUndefinedType schema"
      proof -
      from nstr' nund have nstr: "\<not> isStringType schema \<and> \<not> isUndefinedType schema"
        by simp
      show ?thesis
      proof (cases "isArrayType schema")
        case True
        have "\<exists>zs. flatMap (\<lambda>(idx, item).
                case items schema of
                  Some (One c) \<Rightarrow> validateWithPath RegExp (path @ ''/'' @ decimal idx) c item
                | _ \<Rightarrow> Inr (invalidSchema (path @ ''/'' @ decimal idx))) xs = Inr zs" for xs
        proof (rule flatMap_returns)
          fix x :: "nat \<times> jsval"
          show "\<exists>ys. (case x of (idx, item) \<Rightarrow>
                case items schema of
                  Some (One c) \<Rightarrow> validateWithPath RegExp (path @ ''/'' @ decimal idx) c item
                | _ \<Rightarrow> Inr (invalidSchema (path @ ''/'' @ decimal idx))) = Inr ys"
            using "1.IH"(1) base nstr True tf
            by (auto split: prod.splits option.splits one_or_many.splits)
        qed
        with base nstr True show ?thesis
          by (cases v) (auto simp: validateWithPath.simps [of RegExp path schema])
      next
        case narr: False
        show ?thesis
        proof (cases "isTupleType schema")
          case True
          have "\<exists>zs. flatMap (\<lambda>(idx, item).
                  if idx < length (tuple_items schema)
                  then validateWithPath RegExp (path @ ''/'' @ decimal idx)
                         (tuple_items schema ! idx) item
                  else Inr (invalidSchema (path @ ''/'' @ decimal idx))) xs = Inr zs" for xs
          proof (rule flatMap_returns)
            fix x :: "nat \<times> jsval"
            show "\<exists>ys. (case x of (idx, item) \<Rightarrow>
                  if idx < length (tuple_items schema)
                  then validateWithPath RegExp (path @ ''/'' @ decimal idx)
                         (tuple_items schema ! idx) item
                  else Inr (invalidSchema (path @ ''/'' @ decimal idx))) = Inr ys"
              using "1.IH"(2) base nstr narr True tf
              by (auto simp: list_all_length split: prod.splits)
          qed
          with base nstr narr True show ?thesis
            by (cases v) (auto simp: validateWithPath.simps [of RegExp path schema] Let_def)
        next
          case ntup: False
          show ?thesis
          proof (cases "isObjectType schema")
            case False
            with base nstr narr ntup show ?thesis
              by (simp add: validateWithPath.simps [of RegExp path schema])
          next
            case True
            with base nstr narr ntup tf obtain props where
              props: "properties schema = Some props" and
              all: "list_all (\<lambda>(key, c). throw_free RegExp c) props"
              by (auto split: option.splits)
            have "\<exists>zs. flatMap (\<lambda>key.
                    if key \<in> set (Set_of (keysOf props))
                    then (case map_of props key of
                            Some c \<Rightarrow> validateWithPath RegExp (path @ ''/'' @ key) c
                                        (get (entries v) key)
                          | None \<Rightarrow> Inr (invalidSchema (path @ ''/'' @ key)))
                    else Inr []) ks = Inr zs" for ks
            proof (rule flatMap_returns)
              fix key
              show "\<exists>ys. (if key \<in> set (Set_of (keysOf props))
                    then (case map_of props key of
                            Some c \<Rightarrow> validateWithPath RegExp (path @ ''/'' @ key) c
                                        (get (entries v) key)
                          | None \<Rightarrow> Inr (invalidSchema (path @ ''/'' @ key)))
                    else Inr []) = Inr ys"
              proof (cases "map_of props key")
                case None
                then show ?thesis by simp
              next
                case (Some c)
                then have mem: "(key, c) \<in> set props" by (rule map_of_SomeD)
                with all have "throw_free RegExp c"
                  by (auto simp: list_all_iff)
                from "1.IH"(3) [OF _ _ _ _ _ _ _ _ _ props mem refl this] base nstr narr ntup True
                have "\<exists>ys. validateWithPath RegExp (path @ ''/'' @ key) c
                        (get (entries v) key) = Inr ys"
                  by simp
                with Some show ?thesis by auto
              qed
            qed
            then obtain zs where "flatMap (\<lambda>key.
                    if key \<in> set (Set_of (keysOf props))
                    then (case map_of props key of
                            Some c \<Rightarrow> validateWithPath RegExp (path @ ''/'' @ key) c
                                        (get (entries v) key)
                          | None \<Rightarrow> Inr (invalidSchema (path @ ''/'' @ key)))
                    else Inr []) (Set_of (keysOf (entries v))) = Inr zs"
              by blast
            with base nstr narr ntup True props show ?thesis
              by (simp add: validateWithPath.simps [of RegExp path schema] Let_def)
          qed
        qed
      qed
      qed
      ultimately show ?thesis by blast
    qed
  qed
qed

text \<open>
  C2, as the specification has it: \<open>validate\<close> never throws. It throws a \<open>TypeError\<close> on
  a record schema and an object, here the empty one, and the \<open>SyntaxError\<close> of
  \<open>new RegExp\<close> on a string schema whose pattern is the unterminated class \<open>[\<close>.
\<close>

theorem validate_throws:
  "validate literal_RegExp (T_record T_null) (JObj []) = Inl TypeError \<and>
   validate literal_RegExp (T_string (with_pattern ''['')) (JStr ''abc'') = Inl SyntaxError"
proof
  show "validate literal_RegExp (T_record T_null) (JObj []) = Inl TypeError"
    by (simp add: validate_def validateWithPath_no_properties T_record_def isObjectType_def)
  have "literal_RegExp ''['' = None"
    by code_simp
  then show "validate literal_RegExp (T_string (with_pattern ''['')) (JStr ''abc'') =
      Inl SyntaxError"
    by (simp add: validate_def validateWithPath_bad_pattern [where p = "''[''"] T_string_def
        with_pattern_def isStringType_def)
qed

text \<open>
  C2, amended. On a schema in which, along the dispatch, every pattern of a string schema
  is a source the host compiles and every \<open>object\<close>-tagged schema has its \<open>properties\<close>,
  \<open>validateWithPath\<close> returns an issue sequence for every value and at every path, so
  \<open>validate\<close> and each of its recursive calls do. A pattern that is not a valid regular
  expression is not caught: on a string value the \<open>SyntaxError\<close> of \<open>new RegExp\<close> leaves
  \<open>validateWithPath\<close>.
\<close>

theorem validate_returns_unless_pattern_invalid:
  "(throw_free RegExp schema \<longrightarrow>
      (\<exists>issues. validateWithPath RegExp path schema v = Inr issues)) \<and>
   (isStringType schema \<and> pattern schema = Some p \<and> RegExp p = None \<longrightarrow>
      validateWithPath RegExp path schema (JStr x) = Inl SyntaxError)"
  using validateWithPath_returns validateWithPath_bad_pattern by blast

theorem validate_returns_unless_pattern_invalid_witness:
  "throw_free literal_RegExp (T_object [(''a'', T_array (T_string (with_pattern ''ab'')))]) \<and>
   validateWithPath literal_RegExp []
     (T_object [(''a'', T_array (T_string (with_pattern ''ab'')))])
     (JObj [(''a'', JArr [JStr ''xaby'', JStr ''ba''])]) =
     Inr [violation [Lit ''String value must match pattern: ab''] ''/a/1''] \<and>
   isStringType (T_string (with_pattern ''['')) \<and>
   pattern (T_string (with_pattern ''['')) = Some ''['' \<and>
   literal_RegExp ''['' = None \<and>
   validateWithPath literal_RegExp ''/a/1'' (T_string (with_pattern ''['')) (JStr ''ba'') =
     Inl SyntaxError"
proof -
  have t: "throw_free literal_RegExp
      (T_object [(''a'', T_array (T_string (with_pattern ''ab'')))])"
    by code_simp
  have r: "validateWithPath literal_RegExp []
     (T_object [(''a'', T_array (T_string (with_pattern ''ab'')))])
     (JObj [(''a'', JArr [JStr ''xaby'', JStr ''ba''])]) =
     Inr [violation [Lit ''String value must match pattern: ab''] ''/a/1'']"
    by code_simp
  have s: "isStringType (T_string (with_pattern ''['')) \<and>
      pattern (T_string (with_pattern ''['')) = Some ''[''"
    by (simp add: isStringType_def T_string_def with_pattern_def)
  have n: "literal_RegExp ''['' = None"
    by code_simp
  show ?thesis
    using t r s n validate_returns_unless_pattern_invalid
      [of literal_RegExp "T_string (with_pattern ''['')" "''/a/1''" JNull "''[''" "''ba''"]
    by simp
qed

end
